theory Spec2Isabelle
  imports Main
begin

section \<open>CRL maintenance for a client VPN endpoint (pkg/operations/crl.go)\<close>

text \<open>
  The Go file holds three operations: \<open>GetCRL\<close> reads the revocation list from the PKI
  service, \<open>UpdateCRL\<close> revokes superseded certificates and installs the refreshed list on
  the VPN gateway when it differs from the installed one, and \<open>RotateCRL\<close> asks the PKI
  service to rotate the list and then runs \<open>UpdateCRL\<close>.

  The two remote services are modelled by one record, \<open>world\<close>, that is passed through
  every operation: it holds what the services answer, the state they keep and the trace
  of the calls made so far. A Go result \<open>(value, err)\<close> is a pair whose second component
  is \<open>None\<close> for a nil error; \<open>[]byte\<close> and \<open>string\<close> are both byte sequences, so
  \<open>string(crl)\<close> is the identity and a nil slice is the empty sequence.
\<close>

subsection \<open>Data\<close>

type_synonym bytes = string

datatype error = Error string

text \<open>A Go call either returns or panics (a nil pointer dereference).\<close>

datatype 'a outcome = Return 'a | Panic

text \<open>
  Modelled from the spec: the certificate type of the repository is declared outside
  crl.go. The spec describes a certificate identifier as an opaque handle that carries
  an issuance timestamp.
\<close>

record Certificate =
  cert_id :: nat
  issued :: nat

type_synonym users = "(string \<times> Certificate list) list"

text \<open>The body of an HTTP response: the bytes a full read yields, and the read's error.\<close>

record Body =
  read_data :: bytes
  read_err :: "error option"

record Response =
  Body :: Body

text \<open>
  The output of the gateway's export call. The field is a \<open>*string\<close>: \<open>None\<close> is the nil
  pointer the API returns when no list has been uploaded yet.
\<close>

record ExportOutput =
  CertificateRevocationList :: "string option"

record GetCRLRequest =
  VaultPKIPath :: string

record ListUsersRequest =
  VaultPKIPath :: string
  ClientVPNEndpointID :: string

record UpdateCRLRequest =
  VaultPKIPath :: string
  ClientVPNEndpointID :: string

record RotateCRLRequest =
  VaultPKIPath :: string
  ClientVPNEndpointID :: string

text \<open>The calls an operation makes to its collaborators, and the lines it logs.\<close>

datatype call =
    ListUsersCall string string
  | RevokeCall string nat
  | RawRequestCall string string
  | ExportCall string
  | ImportCall string string
  | LogLine string

text \<open>
  The PKI service answers a raw request (method, path), answers the enumeration of users
  (PKI path, endpoint), keeps the set of revoked certificates and may reject a revoke
  call. The gateway keeps the installed list of every endpoint, and its export and
  import calls may fail.
\<close>

record world =
  raw_request :: "string \<Rightarrow> string \<Rightarrow> error + Response"
  list_users :: "string \<Rightarrow> string \<Rightarrow> users \<times> error option"
  revoked :: "nat set"
  revoke_err :: "string \<Rightarrow> nat \<Rightarrow> nat set \<Rightarrow> error option"
  installed :: "string \<Rightarrow> string option"
  export_err :: "string \<Rightarrow> error option"
  import_err :: "string \<Rightarrow> string \<Rightarrow> error option"
  trace :: "call list"

definition record_call :: "call \<Rightarrow> world \<Rightarrow> world" where
  "record_call c w = w\<lparr>trace := trace w @ [c]\<rparr>"

subsection \<open>Collaborator calls\<close>

text \<open>\<open>Client.RawRequest\<close> of the PKI client.\<close>

definition RawRequest :: "string \<Rightarrow> string \<Rightarrow> world \<Rightarrow> (error + Response) \<times> world" where
  "RawRequest method path w = (raw_request w method path, record_call (RawRequestCall method path) w)"

text \<open>\<open>ioutil.ReadAll\<close>: the bytes read, and the error that stopped the read, if any.\<close>

definition ReadAll :: "Body \<Rightarrow> bytes \<times> error option" where
  "ReadAll b = (read_data b, read_err b)"

text \<open>
  Modelled from the spec: \<open>ListUsers\<close> is declared outside crl.go. The spec (4.3,
  step 1) has it enumerate the users and their certificates, or fail; its answer is a
  parameter of the world. The list is in the order in which \<open>UpdateCRL\<close> ranges over
  the users.
\<close>

definition ListUsers :: "ListUsersRequest \<Rightarrow> world \<Rightarrow> (users \<times> error option) \<times> world" where
  "ListUsers r w =
     (list_users w (ListUsersRequest.VaultPKIPath r) (ListUsersRequest.ClientVPNEndpointID r),
      record_call (ListUsersCall (ListUsersRequest.VaultPKIPath r)
                                 (ListUsersRequest.ClientVPNEndpointID r)) w)"

text \<open>
  Modelled from the spec: the revoke call that \<open>revokeUserCertificates\<close> makes for one
  certificate (4.2, 6). The PKI service may reject the call; otherwise the certificate
  is in the revoked set from then on.
\<close>

definition pki_revoke :: "string \<Rightarrow> Certificate \<Rightarrow> world \<Rightarrow> error option \<times> world" where
  "pki_revoke p c w =
     (let w1 = record_call (RevokeCall p (cert_id c)) w
      in case revoke_err w p (cert_id c) (revoked w) of
           Some err \<Rightarrow> (Some err, w1)
         | None \<Rightarrow> (None, w1\<lparr>revoked := insert (cert_id c) (revoked w)\<rparr>))"

text \<open>
  \<open>ExportClientVpnClientCertificateRevocationList\<close> of the gateway: the call fails, or its
  output holds the list installed on the endpoint.
\<close>

definition Export :: "string \<Rightarrow> world \<Rightarrow> (error + ExportOutput) \<times> world" where
  "Export ep w =
     (case export_err w ep of
        Some err \<Rightarrow> Inl err
      | None \<Rightarrow> Inr \<lparr>CertificateRevocationList = installed w ep\<rparr>,
      record_call (ExportCall ep) w)"

text \<open>
  \<open>ImportClientVpnClientCertificateRevocationList\<close> of the gateway: the call fails and
  changes nothing, or it installs the list on the endpoint, overwriting the one there.
\<close>

definition Import :: "string \<Rightarrow> string \<Rightarrow> world \<Rightarrow> error option \<times> world" where
  "Import crl ep w =
     (let w1 = record_call (ImportCall crl ep) w
      in case import_err w crl ep of
           Some err \<Rightarrow> (Some err, w1)
         | None \<Rightarrow> (None, w1\<lparr>installed := (installed w)(ep := Some crl)\<rparr>))"

text \<open>
  \<open>reflect.ValueOf(x).FieldByName(f).Elem().IsValid()\<close> on a pointer field: false exactly
  for the nil pointer. \<open>deref\<close> is \<open>*p\<close>, which panics on the nil pointer.
\<close>

definition Elem_IsValid :: "'a option \<Rightarrow> bool" where
  "Elem_IsValid p = (case p of None \<Rightarrow> False | Some _ \<Rightarrow> True)"

definition deref :: "'a option \<Rightarrow> 'a outcome" where
  "deref p = (case p of None \<Rightarrow> Panic | Some v \<Rightarrow> Return v)"

subsection \<open>Revocation of a user's certificates\<close>

text \<open>
  Modelled from the spec: \<open>revokeUserCertificates\<close> is declared outside crl.go. The spec
  (4.2): for an empty list there is nothing to do; otherwise every certificate of the list
  is revoked except the one judged latest by issuance, or every certificate when the
  user is deprovisioned; each revocation is one revoke call to the PKI service and the
  first failure aborts. The latest certificate is the one with the greatest issuance
  timestamp, the later entry of the list winning a tie. \<open>UpdateCRL\<close> passes \<open>false\<close> as
  the last argument, the mode that keeps the latest certificate.
\<close>

fun latest :: "Certificate list \<Rightarrow> Certificate option" where
  "latest [] = None"
| "latest (c # cs) =
     (case latest cs of
        None \<Rightarrow> Some c
      | Some d \<Rightarrow> if issued c \<le> issued d then Some d else Some c)"

text \<open>
  Modelled from the spec: the certificates that \<open>revokeUserCertificates\<close> revokes, all
  of them or all but the latest.
\<close>

definition to_revoke :: "Certificate list \<Rightarrow> bool \<Rightarrow> Certificate list" where
  "to_revoke crts revokeAll =
     (if revokeAll then crts
      else case latest crts of
             None \<Rightarrow> []
           | Some l \<Rightarrow> filter (\<lambda>c. cert_id c \<noteq> cert_id l) crts)"

text \<open>Modelled from the spec: one revoke call for each, stopping at the first failure.\<close>

fun revoke_each :: "string \<Rightarrow> Certificate list \<Rightarrow> world \<Rightarrow> error option \<times> world" where
  "revoke_each p [] w = (None, w)"
| "revoke_each p (c # cs) w =
     (case pki_revoke p c w of
        (Some err, w1) \<Rightarrow> (Some err, w1)
      | (None, w1) \<Rightarrow> revoke_each p cs w1)"

text \<open>
  Modelled from the spec: \<open>revokeUserCertificates(client, pkiPath, crts, revokeAll)\<close>, whose
  body is outside crl.go.
\<close>

definition revokeUserCertificates ::
    "string \<Rightarrow> Certificate list \<Rightarrow> bool \<Rightarrow> world \<Rightarrow> error option \<times> world" where
  "revokeUserCertificates p crts revokeAll w = revoke_each p (to_revoke crts revokeAll) w"

subsection \<open>The operations of crl.go\<close>

definition GetCRL :: "GetCRLRequest \<Rightarrow> world \<Rightarrow> (bytes \<times> error option) \<times> world" where
  "GetCRL r w =
     (case RawRequest ''GET'' (''/v1/'' @ GetCRLRequest.VaultPKIPath r @ ''/crl/pem'') w of
        (Inl err, w1) \<Rightarrow> (([], Some err), w1)
      | (Inr rsp, w1) \<Rightarrow>
          (case ReadAll (Body rsp) of
             (data, err) \<Rightarrow> ((data, None), w1)))"

text \<open>The loop of \<open>UpdateCRL\<close> over the users (lines 59 to 64).\<close>

fun revoke_users :: "string \<Rightarrow> users \<Rightarrow> world \<Rightarrow> error option \<times> world" where
  "revoke_users p [] w = (None, w)"
| "revoke_users p ((u, crts) # us) w =
     (case revokeUserCertificates p crts False w of
        (Some err, w1) \<Rightarrow> (Some err, w1)
      | (None, w1) \<Rightarrow> revoke_users p us w1)"

text \<open>
  The comparison with the installed list and the import (lines 84 to 116), for the
  list \<open>crl\<close> that \<open>GetCRL\<close> returned and the output \<open>out\<close> of the export call.
\<close>

definition install_crl ::
    "bytes \<Rightarrow> ExportOutput \<Rightarrow> string \<Rightarrow> world \<Rightarrow> (bytes \<times> error option) outcome \<times> world" where
  "install_crl crl out ep w =
     (if Elem_IsValid (CertificateRevocationList out) then
        (case deref (CertificateRevocationList out) of
           Panic \<Rightarrow> (Panic, w)
         | Return cur \<Rightarrow>
             if cur \<noteq> crl then
               (case Import crl ep w of
                  (Some err, w1) \<Rightarrow> (Return ([], Some err), w1)
                | (None, w1) \<Rightarrow>
                    (Return (crl, None),
                     record_call (LogLine ''Updated CRL in AWS Client VPN endpoint'') w1))
             else
               (Return (crl, None), record_call (LogLine ''CRL does not need to be updated'') w))
      else
        (case Import crl ep w of
           (err, w1) \<Rightarrow>
             (let w2 = record_call (LogLine ''First upload of CRL to the CPN endpoint'') w1
              in case err of
                   Some e \<Rightarrow> (Return ([], Some e), w2)
                 | None \<Rightarrow> (Return (crl, None), w2))))"

text \<open>
  \<open>UpdateCRL\<close>. The error that \<open>GetCRL\<close> returns (line 67) is overwritten by the export
  call's (line 76) before anything reads it, so the model drops it as the code does.
\<close>

definition UpdateCRL :: "UpdateCRLRequest \<Rightarrow> world \<Rightarrow> (bytes \<times> error option) outcome \<times> world" where
  "UpdateCRL r w =
     (case ListUsers \<lparr>ListUsersRequest.VaultPKIPath = UpdateCRLRequest.VaultPKIPath r,
                      ListUsersRequest.ClientVPNEndpointID = UpdateCRLRequest.ClientVPNEndpointID r\<rparr> w of
        ((us, Some err), w1) \<Rightarrow> (Return ([], Some err), w1)
      | ((us, None), w1) \<Rightarrow>
          (case revoke_users (UpdateCRLRequest.VaultPKIPath r) us w1 of
             (Some err, w2) \<Rightarrow> (Return ([], Some err), w2)
           | (None, w2) \<Rightarrow>
               (case GetCRL \<lparr>GetCRLRequest.VaultPKIPath = UpdateCRLRequest.VaultPKIPath r\<rparr> w2 of
                  ((crl, err), w3) \<Rightarrow>
                    (case Export (UpdateCRLRequest.ClientVPNEndpointID r) w3 of
                       (Inl err, w4) \<Rightarrow> (Return ([], Some err), w4)
                     | (Inr cvpnCRL, w4) \<Rightarrow>
                         install_crl crl cvpnCRL (UpdateCRLRequest.ClientVPNEndpointID r) w4))))"

definition RotateCRL :: "RotateCRLRequest \<Rightarrow> world \<Rightarrow> error option outcome \<times> world" where
  "RotateCRL r w =
     (case RawRequest ''GET'' (''/v1/'' @ RotateCRLRequest.VaultPKIPath r @ ''/crl/rotate'') w of
        (Inl err, w1) \<Rightarrow> (Return (Some err), w1)
      | (Inr rsp, w1) \<Rightarrow>
          (case UpdateCRL \<lparr>UpdateCRLRequest.VaultPKIPath = RotateCRLRequest.VaultPKIPath r,
                           UpdateCRLRequest.ClientVPNEndpointID = RotateCRLRequest.ClientVPNEndpointID r\<rparr> w1 of
             (Panic, w2) \<Rightarrow> (Panic, w2)
           | (Return (crl, Some err), w2) \<Rightarrow> (Return (Some err), w2)
           | (Return (crl, None), w2) \<Rightarrow> (Return None, w2)))"

subsection \<open>Reading a run\<close>

text \<open>The calls made to the two services (the trace without the log lines).\<close>

fun is_service_call :: "call \<Rightarrow> bool" where
  "is_service_call (LogLine l) = False"
| "is_service_call c = True"

definition service_calls :: "world \<Rightarrow> call list" where
  "service_calls w = filter is_service_call (trace w)"

fun is_gateway :: "call \<Rightarrow> bool" where
  "is_gateway (ExportCall ep) = True"
| "is_gateway (ImportCall crl ep) = True"
| "is_gateway c = False"

definition gateway_calls :: "world \<Rightarrow> call list" where
  "gateway_calls w = filter is_gateway (trace w)"

fun is_import :: "call \<Rightarrow> bool" where
  "is_import (ImportCall crl ep) = True"
| "is_import c = False"

definition import_calls :: "world \<Rightarrow> call list" where
  "import_calls w = filter is_import (trace w)"

text \<open>The bytes that \<open>GetCRL\<close> hands to \<open>UpdateCRL\<close> for the PKI path \<open>p\<close>.\<close>

definition fetched_crl :: "string \<Rightarrow> world \<Rightarrow> bytes" where
  "fetched_crl p w = fst (fst (GetCRL \<lparr>GetCRLRequest.VaultPKIPath = p\<rparr> w))"

text \<open>Two worlds whose services answer alike.\<close>

definition same_services :: "world \<Rightarrow> world \<Rightarrow> bool" where
  "same_services w w' \<longleftrightarrow>
     raw_request w' = raw_request w \<and> list_users w' = list_users w \<and>
     revoke_err w' = revoke_err w \<and> export_err w' = export_err w \<and>
     import_err w' = import_err w"

text \<open>The certificates of a list that the PKI service has not revoked.\<close>

definition active :: "Certificate list \<Rightarrow> world \<Rightarrow> Certificate list" where
  "active crts w = filter (\<lambda>c. cert_id c \<notin> revoked w) crts"

text \<open>The identifiers that the loop over the users asks the PKI service to revoke.\<close>

fun revoke_targets :: "users \<Rightarrow> nat set" where
  "revoke_targets [] = {}"
| "revoke_targets ((u, crts) # us) = cert_id ` set (to_revoke crts False) \<union> revoke_targets us"

subsection \<open>Example worlds\<close>

definition alice_old :: Certificate where
  "alice_old = \<lparr>cert_id = 1, issued = 1\<rparr>"

definition alice_new :: Certificate where
  "alice_new = \<lparr>cert_id = 2, issued = 5\<rparr>"

definition bob_only :: Certificate where
  "bob_only = \<lparr>cert_id = 3, issued = 2\<rparr>"

text \<open>
  Every service answers: bob has one certificate, alice an old and a new one, nothing is
  revoked and the gateway has no list installed.
\<close>

definition example_world :: world where
  "example_world =
     \<lparr>raw_request = (\<lambda>method path.
          if path = ''/v1/pki/crl/pem''
          then Inr \<lparr>Body = \<lparr>read_data = ''CRL'', read_err = None\<rparr>\<rparr>
          else if path = ''/v1/pki/crl/rotate''
          then Inr \<lparr>Body = \<lparr>read_data = [], read_err = None\<rparr>\<rparr>
          else Inl (Error ''unsupported path'')),
      list_users = (\<lambda>p ep. ([(''bob'', [bob_only]), (''alice'', [alice_old, alice_new])], None)),
      revoked = {},
      revoke_err = (\<lambda>p i rs. None),
      installed = (\<lambda>ep. None),
      export_err = (\<lambda>ep. None),
      import_err = (\<lambda>crl ep. None),
      trace = []\<rparr>"

text \<open>The example world after the enumeration and the revocation of alice's old certificate.\<close>

definition example_converged :: world where
  "example_converged =
     example_world\<lparr>revoked := {1},
                   trace := [ListUsersCall ''pki'' ''cvpn-1'', RevokeCall ''pki'' 1]\<rparr>"

text \<open>The PKI service refuses every raw request; the gateway has a list installed.\<close>

definition fetch_fails :: world where
  "fetch_fails =
     example_world\<lparr>raw_request := (\<lambda>method path. Inl (Error ''permission denied'')),
                   installed := (\<lambda>ep. Some ''CRL'')\<rparr>"

text \<open>The gateway already has the list that the PKI service serves.\<close>

definition up_to_date :: world where
  "up_to_date = example_world\<lparr>installed := (\<lambda>ep. Some ''CRL'')\<rparr>"

text \<open>The read of the response body breaks off after two bytes.\<close>

definition read_breaks :: world where
  "read_breaks =
     example_world\<lparr>raw_request := (\<lambda>method path.
        Inr \<lparr>Body = \<lparr>read_data = ''AB'', read_err = Some (Error ''unexpected EOF'')\<rparr>\<rparr>)\<rparr>"

text \<open>The enumeration of users fails.\<close>

definition enumeration_down :: world where
  "enumeration_down =
     example_world\<lparr>list_users := (\<lambda>p ep. ([], Some (Error ''permission denied'')))\<rparr>"

text \<open>The PKI service rejects the revocation of alice's old certificate.\<close>

definition revoke_rejected :: world where
  "revoke_rejected =
     example_world\<lparr>list_users := (\<lambda>p ep.
                      ([(''bob'', [bob_only]), (''alice'', [alice_old, alice_new]),
                        (''carol'', [\<lparr>cert_id = 4, issued = 3\<rparr>, \<lparr>cert_id = 5, issued = 4\<rparr>])], None)),
                   revoke_err := (\<lambda>p i rs. if i = 1 then Some (Error ''rejected'') else None)\<rparr>"


text \<open>The gateway rejects every import.\<close>

definition import_down :: world where
  "import_down = example_world\<lparr>import_err := (\<lambda>crl ep. Some (Error ''throttled''))\<rparr>"


text \<open>The gateway has the empty list installed, and the PKI service serves the empty list.\<close>

definition empty_installed :: world where
  "empty_installed =
     example_world\<lparr>raw_request := (\<lambda>method path. Inr \<lparr>Body = \<lparr>read_data = [], read_err = None\<rparr>\<rparr>),
                   installed := (\<lambda>ep. Some [])\<rparr>"

text \<open>The PKI service serves the empty list, and the gateway has no list installed.\<close>

definition empty_never_installed :: world where
  "empty_never_installed =
     example_world\<lparr>raw_request := (\<lambda>method path. Inr \<lparr>Body = \<lparr>read_data = [], read_err = None\<rparr>\<rparr>)\<rparr>"

section \<open>What the collaborator calls change\<close>

lemma record_call_simps [simp]:
  "trace (record_call c w) = trace w @ [c]"
  "revoked (record_call c w) = revoked w"
  "installed (record_call c w) = installed w"
  "raw_request (record_call c w) = raw_request w"
  "list_users (record_call c w) = list_users w"
  "revoke_err (record_call c w) = revoke_err w"
  "export_err (record_call c w) = export_err w"
  "import_err (record_call c w) = import_err w"
  by (simp_all add: record_call_def)

lemma service_calls_record_call [simp]:
  "service_calls (record_call c w) = service_calls w @ (if is_service_call c then [c] else [])"
  by (simp add: service_calls_def)

lemma service_calls_installed_update [simp]:
  "service_calls (w\<lparr>installed := i\<rparr>) = service_calls w"
  by (simp add: service_calls_def)

lemma gateway_calls_service:
  "gateway_calls w = filter is_gateway (service_calls w)"
proof -
  have "is_gateway c \<Longrightarrow> is_service_call c" for c by (cases c) simp_all
  then have "(is_service_call c \<and> is_gateway c) = is_gateway c" for c by blast
  then show ?thesis by (simp add: service_calls_def gateway_calls_def)
qed

lemma import_calls_gateway:
  "import_calls w = filter is_import (gateway_calls w)"
proof -
  have "is_import c \<Longrightarrow> is_gateway c" for c by (cases c) simp_all
  then have "(is_gateway c \<and> is_import c) = is_import c" for c by blast
  then show ?thesis by (simp add: import_calls_def gateway_calls_def)
qed

lemma gateway_calls_extend:
  "service_calls w' = service_calls w @ cs \<Longrightarrow>
     gateway_calls w' = gateway_calls w @ filter is_gateway cs"
  by (simp add: gateway_calls_service)

lemma filter_RevokeCall [simp]:
  "filter is_gateway (map (RevokeCall p) ids) = []"
  by (induction ids) simp_all

lemma pki_revoke_frame:
  "pki_revoke p c w = (e, w') \<Longrightarrow>
     same_services w w' \<and> installed w' = installed w \<and> trace w' = trace w @ [RevokeCall p (cert_id c)]"
  by (auto simp: pki_revoke_def same_services_def Let_def split: option.splits)

lemma revoke_each_frame:
  "revoke_each p cs w = (e, w') \<Longrightarrow>
     same_services w w' \<and> installed w' = installed w \<and>
     (\<exists>ids. trace w' = trace w @ map (RevokeCall p) ids)"
proof (induction cs arbitrary: w)
  case Nil
  then show ?case by (simp add: same_services_def)
next
  case (Cons c cs)
  obtain e1 w1 where s: "pki_revoke p c w = (e1, w1)" by (cases "pki_revoke p c w")
  note f = pki_revoke_frame [OF s]
  show ?case
  proof (cases e1)
    case None
    with s Cons.prems have "revoke_each p cs w1 = (e, w')" by simp
    from Cons.IH [OF this] obtain ids where
      "same_services w1 w'" "installed w' = installed w1" "trace w' = trace w1 @ map (RevokeCall p) ids"
      by blast
    with f have "same_services w w'" "installed w' = installed w"
      "trace w' = trace w @ map (RevokeCall p) (cert_id c # ids)"
      by (auto simp: same_services_def)
    then show ?thesis by blast
  next
    case (Some a)
    with s Cons.prems have "w' = w1" by simp
    with f have "trace w' = trace w @ map (RevokeCall p) [cert_id c]" by simp
    with f \<open>w' = w1\<close> show ?thesis by blast
  qed
qed

lemma revoke_users_frame:
  "revoke_users p us w = (e, w') \<Longrightarrow>
     same_services w w' \<and> installed w' = installed w \<and>
     (\<exists>ids. trace w' = trace w @ map (RevokeCall p) ids)"
proof (induction us arbitrary: w)
  case Nil
  then show ?case by (simp add: same_services_def)
next
  case (Cons uc us)
  obtain u crts where uc: "uc = (u, crts)" by (cases uc)
  obtain e1 w1 where s: "revokeUserCertificates p crts False w = (e1, w1)"
    by (cases "revokeUserCertificates p crts False w")
  from revoke_each_frame [OF s [unfolded revokeUserCertificates_def]] obtain ids1 where
    f: "same_services w w1" "installed w1 = installed w" "trace w1 = trace w @ map (RevokeCall p) ids1"
    by blast
  show ?case
  proof (cases e1)
    case None
    with s uc Cons.prems have "revoke_users p us w1 = (e, w')" by simp
    from Cons.IH [OF this] obtain ids where
      "same_services w1 w'" "installed w' = installed w1" "trace w' = trace w1 @ map (RevokeCall p) ids"
      by blast
    with f have "same_services w w'" "installed w' = installed w"
      "trace w' = trace w @ map (RevokeCall p) (ids1 @ ids)"
      by (auto simp: same_services_def)
    then show ?thesis by blast
  next
    case (Some a)
    with s uc Cons.prems have "w' = w1" by simp
    with f show ?thesis by blast
  qed
qed

lemma revoke_users_gateway_calls:
  "revoke_users p us w = (e, w') \<Longrightarrow> gateway_calls w' = gateway_calls w"
  using revoke_users_frame [of p us w e w'] by (auto simp: gateway_calls_def)

lemma revoke_users_append:
  "revoke_users p (pre @ us) w =
     (case revoke_users p pre w of
        (Some err, w1) \<Rightarrow> (Some err, w1)
      | (None, w1) \<Rightarrow> revoke_users p us w1)"
  by (induction pre arbitrary: w) (auto split: prod.splits option.splits)

lemma GetCRL_world:
  "snd (GetCRL r w) =
     record_call (RawRequestCall ''GET'' (''/v1/'' @ GetCRLRequest.VaultPKIPath r @ ''/crl/pem'')) w"
  by (simp add: GetCRL_def RawRequest_def ReadAll_def split: sum.splits)

lemma GetCRL_result:
  "raw_request w' = raw_request w \<Longrightarrow> fst (GetCRL r w') = fst (GetCRL r w)"
  by (simp add: GetCRL_def RawRequest_def ReadAll_def split: sum.splits)

section \<open>The comparison and the import\<close>

lemma install_crl_equal:
  "install_crl crl \<lparr>CertificateRevocationList = Some crl\<rparr> ep w =
     (Return (crl, None), record_call (LogLine ''CRL does not need to be updated'') w)"
  by (simp add: install_crl_def Elem_IsValid_def deref_def)

lemma install_crl_no_panic: "fst (install_crl crl out ep w) \<noteq> Panic"
  by (cases "CertificateRevocationList out")
     (auto simp: install_crl_def Elem_IsValid_def deref_def Import_def Let_def split: option.splits)

lemma install_crl_revoked: "revoked (snd (install_crl crl out ep w)) = revoked w"
  by (cases "CertificateRevocationList out")
     (auto simp: install_crl_def Elem_IsValid_def deref_def Import_def Let_def split: option.splits)

lemma install_crl_absent:
  "install_crl crl \<lparr>CertificateRevocationList = None\<rparr> ep w =
     ((case import_err w crl ep of Some e \<Rightarrow> Return ([], Some e) | None \<Rightarrow> Return (crl, None)),
      record_call (LogLine ''First upload of CRL to the CPN endpoint'')
        ((record_call (ImportCall crl ep) w)
           \<lparr>installed := (case import_err w crl ep of Some e \<Rightarrow> installed w
                           | None \<Rightarrow> (installed w)(ep := Some crl))\<rparr>))"
  by (simp add: install_crl_def Elem_IsValid_def deref_def Import_def Let_def split: option.splits)

lemma install_crl_differs:
  "cur \<noteq> crl \<Longrightarrow> install_crl crl \<lparr>CertificateRevocationList = Some cur\<rparr> ep w =
     (case import_err w crl ep of
        Some e \<Rightarrow> (Return ([], Some e), record_call (ImportCall crl ep) w)
      | None \<Rightarrow> (Return (crl, None),
                 record_call (LogLine ''Updated CRL in AWS Client VPN endpoint'')
                   ((record_call (ImportCall crl ep) w)\<lparr>installed := (installed w)(ep := Some crl)\<rparr>)))"
  by (simp add: install_crl_def Elem_IsValid_def deref_def Import_def Let_def split: option.splits)

section \<open>The steps of UpdateCRL\<close>

lemma UpdateCRL_list_error:
  "list_users w p ep = (us, Some err) \<Longrightarrow>
     UpdateCRL \<lparr>UpdateCRLRequest.VaultPKIPath = p, UpdateCRLRequest.ClientVPNEndpointID = ep\<rparr> w
       = (Return ([], Some err), record_call (ListUsersCall p ep) w)"
  by (simp add: UpdateCRL_def ListUsers_def)

lemma UpdateCRL_revoke_error:
  assumes lu: "list_users w p ep = (us, None)"
    and rv: "revoke_users p us (record_call (ListUsersCall p ep) w) = (Some err, w2)"
  shows "UpdateCRL \<lparr>UpdateCRLRequest.VaultPKIPath = p, UpdateCRLRequest.ClientVPNEndpointID = ep\<rparr> w
           = (Return ([], Some err), w2)"
  using lu rv by (simp add: UpdateCRL_def ListUsers_def)

lemma UpdateCRL_export_error:
  assumes lu: "list_users w p ep = (us, None)"
    and rv: "revoke_users p us (record_call (ListUsersCall p ep) w) = (None, w2)"
    and ex: "export_err w ep = Some err"
  shows "UpdateCRL \<lparr>UpdateCRLRequest.VaultPKIPath = p, UpdateCRLRequest.ClientVPNEndpointID = ep\<rparr> w =
           (Return ([], Some err),
            record_call (ExportCall ep)
              (record_call (RawRequestCall ''GET'' (''/v1/'' @ p @ ''/crl/pem'')) w2))"
proof -
  let ?g = "\<lparr>GetCRLRequest.VaultPKIPath = p\<rparr>"
  from revoke_users_frame [OF rv] have f: "export_err w2 = export_err w"
    by (simp add: same_services_def)
  obtain crl e w3 where g: "GetCRL ?g w2 = ((crl, e), w3)"
    by (metis surj_pair)
  with GetCRL_world [of ?g w2]
  have w3: "w3 = record_call (RawRequestCall ''GET'' (''/v1/'' @ p @ ''/crl/pem'')) w2" by simp
  have x: "Export ep w3 = (Inl err, record_call (ExportCall ep) w3)"
    using ex f by (simp add: Export_def w3)
  show ?thesis
    using lu rv g x by (simp add: UpdateCRL_def ListUsers_def w3)
qed

lemma UpdateCRL_reaches_install:
  assumes lu: "list_users w p ep = (us, None)"
    and rv: "revoke_users p us (record_call (ListUsersCall p ep) w) = (None, w2)"
    and ex: "export_err w ep = None"
  shows "UpdateCRL \<lparr>UpdateCRLRequest.VaultPKIPath = p, UpdateCRLRequest.ClientVPNEndpointID = ep\<rparr> w =
           install_crl (fetched_crl p w) \<lparr>CertificateRevocationList = installed w ep\<rparr> ep
             (record_call (ExportCall ep)
               (record_call (RawRequestCall ''GET'' (''/v1/'' @ p @ ''/crl/pem'')) w2))"
proof -
  let ?g = "\<lparr>GetCRLRequest.VaultPKIPath = p\<rparr>"
  from revoke_users_frame [OF rv]
  have f: "raw_request w2 = raw_request w" "installed w2 = installed w" "export_err w2 = export_err w"
    by (simp_all add: same_services_def)
  have g1: "fst (fst (GetCRL ?g w2)) = fetched_crl p w"
    using GetCRL_result [OF f(1), of ?g] by (simp add: fetched_crl_def)
  have g2: "snd (GetCRL ?g w2) = record_call (RawRequestCall ''GET'' (''/v1/'' @ p @ ''/crl/pem'')) w2"
    using GetCRL_world [of ?g w2] by simp
  obtain crl e w3 where g: "GetCRL ?g w2 = ((crl, e), w3)"
    by (metis surj_pair)
  with g1 g2 have c: "crl = fetched_crl p w"
    and w3: "w3 = record_call (RawRequestCall ''GET'' (''/v1/'' @ p @ ''/crl/pem'')) w2"
    by simp_all
  have x: "Export ep w3 = (Inr \<lparr>CertificateRevocationList = installed w ep\<rparr>, record_call (ExportCall ep) w3)"
    using ex f by (simp add: Export_def w3)
  show ?thesis
    using lu rv g x by (simp add: UpdateCRL_def ListUsers_def c w3)
qed

lemma UpdateCRL_no_panic: "fst (UpdateCRL r w) \<noteq> Panic"
  by (auto simp: UpdateCRL_def install_crl_no_panic split: prod.splits option.splits sum.splits)

text \<open>What a run does once the first four steps have succeeded.\<close>

lemma UpdateCRL_install_cases:
  assumes lu: "list_users w p ep = (us, None)"
    and rv: "revoke_users p us (record_call (ListUsersCall p ep) w) = (None, w2)"
    and ex: "export_err w ep = None"
  shows "(installed w ep = Some (fetched_crl p w) \<longrightarrow>
            fst (UpdateCRL \<lparr>UpdateCRLRequest.VaultPKIPath = p, UpdateCRLRequest.ClientVPNEndpointID = ep\<rparr> w)
              = Return (fetched_crl p w, None)
          \<and> service_calls (snd (UpdateCRL \<lparr>UpdateCRLRequest.VaultPKIPath = p, UpdateCRLRequest.ClientVPNEndpointID = ep\<rparr> w))
              = service_calls w2 @ [RawRequestCall ''GET'' (''/v1/'' @ p @ ''/crl/pem''), ExportCall ep]
          \<and> installed (snd (UpdateCRL \<lparr>UpdateCRLRequest.VaultPKIPath = p, UpdateCRLRequest.ClientVPNEndpointID = ep\<rparr> w))
              = installed w)
       \<and> (installed w ep \<noteq> Some (fetched_crl p w) \<longrightarrow>
            service_calls (snd (UpdateCRL \<lparr>UpdateCRLRequest.VaultPKIPath = p, UpdateCRLRequest.ClientVPNEndpointID = ep\<rparr> w))
              = service_calls w2 @ [RawRequestCall ''GET'' (''/v1/'' @ p @ ''/crl/pem''), ExportCall ep,
                                    ImportCall (fetched_crl p w) ep]
          \<and> (import_err w (fetched_crl p w) ep = None \<longrightarrow>
                fst (UpdateCRL \<lparr>UpdateCRLRequest.VaultPKIPath = p, UpdateCRLRequest.ClientVPNEndpointID = ep\<rparr> w)
                  = Return (fetched_crl p w, None)
              \<and> installed (snd (UpdateCRL \<lparr>UpdateCRLRequest.VaultPKIPath = p, UpdateCRLRequest.ClientVPNEndpointID = ep\<rparr> w))
                  = (installed w)(ep := Some (fetched_crl p w))))"
proof -
  let ?crl = "fetched_crl p w"
  note d = UpdateCRL_reaches_install [OF lu rv ex]
  from revoke_users_frame [OF rv]
  have f: "installed w2 = installed w" "import_err w2 = import_err w"
    by (simp_all add: same_services_def)
  have eq: ?thesis if "installed w ep = Some ?crl"
    using that d f by (simp add: install_crl_equal)
  have absent: ?thesis if "installed w ep = None"
    using that d f by (auto simp: install_crl_absent split: option.splits)
  have differs: ?thesis if c: "installed w ep = Some cur" and n: "cur \<noteq> ?crl" for cur
    using c n d f by (auto simp: install_crl_differs split: option.splits)
  show ?thesis
    using eq absent differs by (cases "installed w ep") auto
qed

lemma fetched_crl_body:
  "raw_request w ''GET'' (''/v1/'' @ p @ ''/crl/pem'') = Inr rsp \<Longrightarrow>
     fetched_crl p w = read_data (Body rsp)"
  by (simp add: fetched_crl_def GetCRL_def RawRequest_def ReadAll_def)

lemma fetched_crl_error:
  "raw_request w ''GET'' (''/v1/'' @ p @ ''/crl/pem'') = Inl err \<Longrightarrow> fetched_crl p w = []"
  by (simp add: fetched_crl_def GetCRL_def RawRequest_def)

text \<open>The gateway calls of a run, in every case.\<close>

lemma UpdateCRL_gateway_cases:
  "gateway_calls (snd (UpdateCRL \<lparr>UpdateCRLRequest.VaultPKIPath = p, UpdateCRLRequest.ClientVPNEndpointID = ep\<rparr> w))
       = gateway_calls w
     \<and> installed (snd (UpdateCRL \<lparr>UpdateCRLRequest.VaultPKIPath = p, UpdateCRLRequest.ClientVPNEndpointID = ep\<rparr> w))
       = installed w
   \<or> gateway_calls (snd (UpdateCRL \<lparr>UpdateCRLRequest.VaultPKIPath = p, UpdateCRLRequest.ClientVPNEndpointID = ep\<rparr> w))
       = gateway_calls w @ [ExportCall ep]
     \<and> installed (snd (UpdateCRL \<lparr>UpdateCRLRequest.VaultPKIPath = p, UpdateCRLRequest.ClientVPNEndpointID = ep\<rparr> w))
       = installed w
   \<or> installed w ep \<noteq> Some (fetched_crl p w)
     \<and> gateway_calls (snd (UpdateCRL \<lparr>UpdateCRLRequest.VaultPKIPath = p, UpdateCRLRequest.ClientVPNEndpointID = ep\<rparr> w))
         = gateway_calls w @ [ExportCall ep, ImportCall (fetched_crl p w) ep]"
proof -
  let ?r = "\<lparr>UpdateCRLRequest.VaultPKIPath = p, UpdateCRLRequest.ClientVPNEndpointID = ep\<rparr>"
  obtain us e where lu: "list_users w p ep = (us, e)" by (cases "list_users w p ep")
  show ?thesis
  proof (cases e)
    case (Some err)
    with lu UpdateCRL_list_error [of w p ep us err] show ?thesis
      by (simp add: gateway_calls_def)
  next
    case None
    note lu = lu [unfolded None]
    obtain e2 w2 where rv: "revoke_users p us (record_call (ListUsersCall p ep) w) = (e2, w2)"
      by (cases "revoke_users p us (record_call (ListUsersCall p ep) w)")
    from revoke_users_gateway_calls [OF rv] have g2: "gateway_calls w2 = gateway_calls w"
      by (simp add: gateway_calls_def)
    from revoke_users_frame [OF rv] have i2: "installed w2 = installed w" by simp
    show ?thesis
    proof (cases e2)
      case (Some err)
      with UpdateCRL_revoke_error [OF lu] rv g2 i2 show ?thesis by simp
    next
      case None
      note rv = rv [unfolded None]
      show ?thesis
      proof (cases "export_err w ep")
        case (Some err)
        from UpdateCRL_export_error [OF lu rv Some] g2 i2 show ?thesis
          by (simp add: gateway_calls_def)
      next
        case None
        note d = UpdateCRL_install_cases [OF lu rv None]
        show ?thesis
        proof (cases "installed w ep = Some (fetched_crl p w)")
          case True
          with d have "service_calls (snd (UpdateCRL ?r w))
            = service_calls w2 @ [RawRequestCall ''GET'' (''/v1/'' @ p @ ''/crl/pem''), ExportCall ep]"
            and "installed (snd (UpdateCRL ?r w)) = installed w"
            by blast+
          with gateway_calls_extend [OF this(1)] g2 show ?thesis by simp
        next
          case False
          with d have "service_calls (snd (UpdateCRL ?r w))
            = service_calls w2 @ [RawRequestCall ''GET'' (''/v1/'' @ p @ ''/crl/pem''), ExportCall ep,
                                  ImportCall (fetched_crl p w) ep]"
            by blast
          from gateway_calls_extend [OF this] g2 False show ?thesis by simp
        qed
      qed
    qed
  qed
qed

lemma UpdateCRL_up_to_date:
  assumes "installed w ep = Some (fetched_crl p w)"
  shows "import_calls (snd (UpdateCRL \<lparr>UpdateCRLRequest.VaultPKIPath = p, UpdateCRLRequest.ClientVPNEndpointID = ep\<rparr> w))
           = import_calls w
         \<and> installed (snd (UpdateCRL \<lparr>UpdateCRLRequest.VaultPKIPath = p, UpdateCRLRequest.ClientVPNEndpointID = ep\<rparr> w))
           = installed w"
  using UpdateCRL_gateway_cases [of p ep w] assms
  by (auto simp: import_calls_gateway)

text \<open>A run that returns without error has installed what it fetched, or found it installed.\<close>

lemma UpdateCRL_success:
  assumes run: "UpdateCRL \<lparr>UpdateCRLRequest.VaultPKIPath = p, UpdateCRLRequest.ClientVPNEndpointID = ep\<rparr> w
                  = (Return (crl, None), w')"
    and lu: "list_users w p ep = (us, e)"
  shows "e = None \<and> crl = fetched_crl p w \<and> installed w' ep = Some crl
         \<and> (\<exists>w2. revoke_users p us (record_call (ListUsersCall p ep) w) = (None, w2)
                \<and> revoked w' = revoked w2)"
proof -
  have e: "e = None"
  proof (cases e)
    case (Some err)
    with lu UpdateCRL_list_error [of w p ep us err] run show ?thesis by simp
  qed simp
  note lu = lu [unfolded e]
  obtain e2 w2 where rv: "revoke_users p us (record_call (ListUsersCall p ep) w) = (e2, w2)"
    by (cases "revoke_users p us (record_call (ListUsersCall p ep) w)")
  have e2: "e2 = None"
  proof (cases e2)
    case (Some err)
    with UpdateCRL_revoke_error [OF lu] rv run show ?thesis by simp
  qed simp
  note rv = rv [unfolded e2]
  have ex: "export_err w ep = None"
  proof (cases "export_err w ep")
    case (Some err)
    from UpdateCRL_export_error [OF lu rv Some] run show ?thesis by simp
  qed simp
  note d = UpdateCRL_reaches_install [OF lu rv ex]
  have "revoked (snd (UpdateCRL \<lparr>UpdateCRLRequest.VaultPKIPath = p, UpdateCRLRequest.ClientVPNEndpointID = ep\<rparr> w))
      = revoked w2"
    unfolding d by (simp add: install_crl_revoked)
  with run have r: "revoked w' = revoked w2" by simp
  note c = UpdateCRL_install_cases [OF lu rv ex]
  have "crl = fetched_crl p w \<and> installed w' ep = Some crl"
  proof (cases "installed w ep = Some (fetched_crl p w)")
    case True
    with c run show ?thesis by simp
  next
    case False
    show ?thesis
    proof (cases "import_err w (fetched_crl p w) ep")
      case None
      with False c run show ?thesis by simp
    next
      case (Some err)
      from revoke_users_frame [OF rv] have f: "import_err w2 = import_err w"
        by (simp add: same_services_def)
      have "fst (UpdateCRL \<lparr>UpdateCRLRequest.VaultPKIPath = p, UpdateCRLRequest.ClientVPNEndpointID = ep\<rparr> w)
          = Return ([], Some err)"
        using False Some d f
        by (cases "installed w ep") (simp_all add: install_crl_absent install_crl_differs)
      with run show ?thesis by simp
    qed
  qed
  with e rv r show ?thesis by blast
qed

lemma install_crl_world:
  "raw_request (snd (install_crl crl out ep w)) = raw_request w
   \<and> (\<exists>cs. trace (snd (install_crl crl out ep w)) = trace w @ cs)"
  by (cases "CertificateRevocationList out")
     (auto simp: install_crl_def Elem_IsValid_def deref_def Import_def Let_def split: option.splits)

lemma UpdateCRL_world:
  "raw_request (snd (UpdateCRL \<lparr>UpdateCRLRequest.VaultPKIPath = p, UpdateCRLRequest.ClientVPNEndpointID = ep\<rparr> w))
     = raw_request w
   \<and> (\<exists>cs. trace (snd (UpdateCRL \<lparr>UpdateCRLRequest.VaultPKIPath = p, UpdateCRLRequest.ClientVPNEndpointID = ep\<rparr> w))
        = trace w @ cs)"
proof -
  obtain us e where lu: "list_users w p ep = (us, e)" by (cases "list_users w p ep")
  show ?thesis
  proof (cases e)
    case (Some err)
    with lu UpdateCRL_list_error [of w p ep us err] show ?thesis by simp
  next
    case None
    note lu = lu [unfolded None]
    obtain e2 w2 where rv: "revoke_users p us (record_call (ListUsersCall p ep) w) = (e2, w2)"
      by (cases "revoke_users p us (record_call (ListUsersCall p ep) w)")
    from revoke_users_frame [OF rv] obtain ids where
      f: "raw_request w2 = raw_request w" "trace w2 = trace w @ ListUsersCall p ep # map (RevokeCall p) ids"
      by (auto simp: same_services_def)
    show ?thesis
    proof (cases e2)
      case (Some err)
      with UpdateCRL_revoke_error [OF lu] rv f show ?thesis by simp
    next
      case None
      note rv = rv [unfolded None]
      show ?thesis
      proof (cases "export_err w ep")
        case (Some err)
        from UpdateCRL_export_error [OF lu rv Some] f show ?thesis by simp
      next
        case None
        let ?w4 = "record_call (ExportCall ep)
                     (record_call (RawRequestCall ''GET'' (''/v1/'' @ p @ ''/crl/pem'')) w2)"
        from install_crl_world
          [of "fetched_crl p w" "\<lparr>CertificateRevocationList = installed w ep\<rparr>" ep ?w4]
        obtain cs where
          "raw_request (snd (install_crl (fetched_crl p w) \<lparr>CertificateRevocationList = installed w ep\<rparr> ep ?w4))
             = raw_request ?w4"
          "trace (snd (install_crl (fetched_crl p w) \<lparr>CertificateRevocationList = installed w ep\<rparr> ep ?w4))
             = trace ?w4 @ cs"
          by blast
        with f show ?thesis
          unfolding UpdateCRL_reaches_install [OF lu rv None] by simp
      qed
    qed
  qed
qed

lemma RotateCRL_rotate_error:
  "raw_request w ''GET'' (''/v1/'' @ p @ ''/crl/rotate'') = Inl err \<Longrightarrow>
     RotateCRL \<lparr>RotateCRLRequest.VaultPKIPath = p, RotateCRLRequest.ClientVPNEndpointID = ep\<rparr> w
       = (Return (Some err), record_call (RawRequestCall ''GET'' (''/v1/'' @ p @ ''/crl/rotate'')) w)"
  by (simp add: RotateCRL_def RawRequest_def)

lemma RotateCRL_rotate_ok:
  assumes "raw_request w ''GET'' (''/v1/'' @ p @ ''/crl/rotate'') = Inr rsp"
    and "UpdateCRL \<lparr>UpdateCRLRequest.VaultPKIPath = p, UpdateCRLRequest.ClientVPNEndpointID = ep\<rparr>
           (record_call (RawRequestCall ''GET'' (''/v1/'' @ p @ ''/crl/rotate'')) w) = (Return (crl, e), w2)"
  shows "RotateCRL \<lparr>RotateCRLRequest.VaultPKIPath = p, RotateCRLRequest.ClientVPNEndpointID = ep\<rparr> w
           = (Return e, w2)"
  using assms by (cases e) (simp_all add: RotateCRL_def RawRequest_def)

lemma UpdateCRL_import_bound:
  "length (import_calls (snd (UpdateCRL \<lparr>UpdateCRLRequest.VaultPKIPath = p, UpdateCRLRequest.ClientVPNEndpointID = ep\<rparr> w)))
     \<le> length (import_calls w) + 1"
  using UpdateCRL_gateway_cases [of p ep w] by (auto simp: import_calls_gateway)

section \<open>Which certificates a run revokes\<close>

lemma latest_in: "latest crts = Some l \<Longrightarrow> l \<in> set crts"
  by (induction crts arbitrary: l) (auto split: option.splits if_splits)



lemma pki_revoke_revoked:
  "pki_revoke p c w = (None, w') \<Longrightarrow> revoked w' = insert (cert_id c) (revoked w)"
  by (auto simp: pki_revoke_def Let_def split: option.splits)

lemma revoke_each_revoked:
  "revoke_each p cs w = (None, w') \<Longrightarrow> revoked w' = revoked w \<union> cert_id ` set cs"
proof (induction cs arbitrary: w)
  case Nil
  then show ?case by simp
next
  case (Cons c cs)
  obtain e1 w1 where s: "pki_revoke p c w = (e1, w1)" by (cases "pki_revoke p c w")
  with Cons.prems have e1: "e1 = None" and r: "revoke_each p cs w1 = (None, w')"
    by (auto split: option.splits)
  from pki_revoke_revoked [OF s [unfolded e1]] Cons.IH [OF r] show ?case by auto
qed

lemma revoke_users_revoked:
  "revoke_users p us w = (None, w') \<Longrightarrow> revoked w' = revoked w \<union> revoke_targets us"
proof (induction us arbitrary: w)
  case Nil
  then show ?case by simp
next
  case (Cons uc us)
  obtain u crts where uc: "uc = (u, crts)" by (cases uc)
  obtain e1 w1 where s: "revokeUserCertificates p crts False w = (e1, w1)"
    by (cases "revokeUserCertificates p crts False w")
  with Cons.prems uc have e1: "e1 = None" and r: "revoke_users p us w1 = (None, w')"
    by (auto split: option.splits)
  from s e1 have "revoke_each p (to_revoke crts False) w = (None, w1)"
    by (simp add: revokeUserCertificates_def)
  from revoke_each_revoked [OF this] Cons.IH [OF r] uc show ?case by auto
qed

lemma to_revoke_subset: "set (to_revoke crts b) \<subseteq> set crts"
  by (auto simp: to_revoke_def split: option.splits)

lemma revoke_targets_subset:
  "revoke_targets us \<subseteq> cert_id ` set (concat (map snd us))"
proof (induction us)
  case Nil
  then show ?case by simp
next
  case (Cons uc us)
  obtain u crts where uc: "uc = (u, crts)" by (cases uc)
  have "cert_id ` set (to_revoke crts False) \<subseteq> cert_id ` set crts"
    using to_revoke_subset [of crts False] by blast
  with Cons.IH show ?case
    unfolding uc by (simp add: image_Un) blast
qed

lemma to_revoke_iff:
  "latest crts = Some l \<Longrightarrow> c \<in> set crts \<Longrightarrow>
     cert_id c \<in> cert_id ` set (to_revoke crts False) \<longleftrightarrow> cert_id c \<noteq> cert_id l"
  by (auto simp: to_revoke_def)

lemma revoke_targets_iff:
  assumes "distinct (map cert_id (concat (map snd us)))"
    and "(u, crts) \<in> set us" and "latest crts = Some l" and "c \<in> set crts"
  shows "cert_id c \<in> revoke_targets us \<longleftrightarrow> cert_id c \<noteq> cert_id l"
  using assms
proof (induction us)
  case Nil
  then show ?case by simp
next
  case (Cons uc us)
  obtain u0 crts0 where uc: "uc = (u0, crts0)" by (cases uc)
  from Cons.prems(1) uc have d: "distinct (map cert_id (concat (map snd us)))"
    and dj: "cert_id ` set crts0 \<inter> cert_id ` set (concat (map snd us)) = {}"
    by auto
  show ?case
  proof (cases "(u, crts) \<in> set us")
    case True
    with Cons.prems(4) have "cert_id c \<in> cert_id ` set (concat (map snd us))" by force
    with dj have "cert_id c \<notin> cert_id ` set crts0" by blast
    then have "cert_id c \<notin> cert_id ` set (to_revoke crts0 False)"
      by (auto simp: to_revoke_def split: option.splits)
    with Cons.IH [OF d True Cons.prems(3,4)] uc show ?thesis by simp
  next
    case False
    with Cons.prems(2) uc have eq: "crts0 = crts" by auto
    with Cons.prems(4) dj have "cert_id c \<notin> cert_id ` set (concat (map snd us))" by blast
    with revoke_targets_subset [of us] have "cert_id c \<notin> revoke_targets us" by blast
    with to_revoke_iff [OF Cons.prems(3,4)] uc eq show ?thesis by simp
  qed
qed

lemma filter_single:
  "distinct (map f xs) \<Longrightarrow> l \<in> set xs \<Longrightarrow> filter (\<lambda>c. f c = f l) xs = [l]"
proof (induction xs)
  case Nil
  then show ?case by simp
next
  case (Cons a xs)
  show ?case
  proof (cases "a = l")
    case True
    with Cons.prems have "\<forall>c\<in>set xs. f c \<noteq> f l" by (auto simp: image_iff)
    then have "filter (\<lambda>c. f c = f l) xs = []" by (simp add: filter_empty_conv)
    with True show ?thesis by simp
  next
    case False
    with Cons.prems have "l \<in> set xs" "f a \<noteq> f l" by force+
    with Cons show ?thesis by simp
  qed
qed

lemma active_after_revoke_users:
  assumes rv: "revoke_users p us w = (None, w')"
    and d: "distinct (map cert_id (concat (map snd us)))"
    and m: "(u, crts) \<in> set us" and l: "latest crts = Some l"
  shows "active crts w' = (if cert_id l \<in> revoked w then [] else [l])"
proof -
  from d m have dc: "distinct (map cert_id crts)"
  proof (induction us)
    case Nil
    then show ?case by simp
  next
    case (Cons a us)
    then show ?case by (cases a) auto
  qed
  have "cert_id c \<notin> revoked w' \<longleftrightarrow> cert_id c = cert_id l \<and> cert_id c \<notin> revoked w"
    if "c \<in> set crts" for c
    using revoke_users_revoked [OF rv] revoke_targets_iff [OF d m l that] by auto
  then have "active crts w' = filter (\<lambda>c. cert_id c = cert_id l \<and> cert_id c \<notin> revoked w) crts"
    unfolding active_def by (intro filter_cong) auto
  also have "\<dots> = filter (\<lambda>c. cert_id c \<notin> revoked w) (filter (\<lambda>c. cert_id c = cert_id l) crts)"
    by simp
  also have "\<dots> = (if cert_id l \<in> revoked w then [] else [l])"
    using filter_single [OF dc latest_in [OF l]] by simp
  finally show ?thesis .
qed



section \<open>Evaluating the example worlds\<close>

lemmas run_defs =
  UpdateCRL_def ListUsers_def revokeUserCertificates_def to_revoke_def pki_revoke_def
  GetCRL_def RawRequest_def ReadAll_def Export_def install_crl_def Import_def
  Elem_IsValid_def deref_def record_call_def alice_old_def alice_new_def bob_only_def
  example_world_def service_calls_def import_calls_def gateway_calls_def active_def fetched_crl_def

section \<open>GetCRL\<close>

text \<open>
  C5: \<open>GetCRL\<close> is to return the response body verbatim and to return an error whenever
  the request cannot be completed, a failed read of the body included. The code returns
  the error of the request itself, but it drops the error of \<open>ioutil.ReadAll\<close> (line 30)
  and returns \<open>nil\<close> in its place (line 31): here the read breaks off after two bytes,
  and \<open>GetCRL\<close> returns these two bytes and no error.
\<close>

theorem GetCRL_read_error_dropped:
  "raw_request read_breaks ''GET'' ''/v1/pki/crl/pem''
     = Inr \<lparr>Body = \<lparr>read_data = ''AB'', read_err = Some (Error ''unexpected EOF'')\<rparr>\<rparr>
   \<and> GetCRL \<lparr>GetCRLRequest.VaultPKIPath = ''pki''\<rparr> read_breaks
     = ((''AB'', None), record_call (RawRequestCall ''GET'' ''/v1/pki/crl/pem'') read_breaks)"
  by (simp add: GetCRL_def RawRequest_def ReadAll_def read_breaks_def example_world_def)

section \<open>Failures before the comparison\<close>

text \<open>
  C8: when the enumeration of the users fails, \<open>UpdateCRL\<close> returns the enumeration's
  error and has made no call but the enumeration: no certificate is revoked.
\<close>

theorem UpdateCRL_enumeration_fails:
  "list_users w p ep = (us, Some err) \<Longrightarrow>
     UpdateCRL \<lparr>UpdateCRLRequest.VaultPKIPath = p, UpdateCRLRequest.ClientVPNEndpointID = ep\<rparr> w
       = (Return ([], Some err), record_call (ListUsersCall p ep) w)
     \<and> revoked (snd (UpdateCRL \<lparr>UpdateCRLRequest.VaultPKIPath = p, UpdateCRLRequest.ClientVPNEndpointID = ep\<rparr> w))
       = revoked w"
  by (simp add: UpdateCRL_list_error)

theorem UpdateCRL_enumeration_fails_witness:
  "list_users enumeration_down ''pki'' ''cvpn-1'' = ([], Some (Error ''permission denied''))
   \<and> UpdateCRL \<lparr>UpdateCRLRequest.VaultPKIPath = ''pki'', UpdateCRLRequest.ClientVPNEndpointID = ''cvpn-1''\<rparr>
        enumeration_down
      = (Return ([], Some (Error ''permission denied'')),
         record_call (ListUsersCall ''pki'' ''cvpn-1'') enumeration_down)"
  using UpdateCRL_enumeration_fails
    [of enumeration_down "''pki''" "''cvpn-1''" "[]" "Error ''permission denied''"]
  by (simp add: enumeration_down_def)

text \<open>
  C7: when \<open>revokeUserCertificates\<close> fails for a user, after it has succeeded for the
  users before, \<open>UpdateCRL\<close> returns that error and stops in the state the failed call
  left: the calls made are the enumeration and revoke calls only, so nothing is revoked
  for the users after, the list is not fetched and the gateway is not called.
\<close>

theorem UpdateCRL_revocation_fails:
  assumes lu: "list_users w p ep = (pre @ (u, crts) # post, None)"
    and pre: "revoke_users p pre (record_call (ListUsersCall p ep) w) = (None, w1)"
    and bad: "revokeUserCertificates p crts False w1 = (Some err, w2)"
  shows "UpdateCRL \<lparr>UpdateCRLRequest.VaultPKIPath = p, UpdateCRLRequest.ClientVPNEndpointID = ep\<rparr> w
           = (Return ([], Some err), w2)
         \<and> (\<exists>ids. trace w2 = trace w @ ListUsersCall p ep # map (RevokeCall p) ids)
         \<and> installed w2 = installed w"
proof -
  have rv: "revoke_users p (pre @ (u, crts) # post) (record_call (ListUsersCall p ep) w) = (Some err, w2)"
    using pre bad by (simp add: revoke_users_append)
  from revoke_users_frame [OF rv] obtain ids where
    "trace w2 = trace w @ ListUsersCall p ep # map (RevokeCall p) ids" "installed w2 = installed w"
    by auto
  with UpdateCRL_revoke_error [OF lu rv] show ?thesis by blast
qed

theorem UpdateCRL_revocation_fails_witness:
  "UpdateCRL \<lparr>UpdateCRLRequest.VaultPKIPath = ''pki'', UpdateCRLRequest.ClientVPNEndpointID = ''cvpn-1''\<rparr>
      revoke_rejected
    = (Return ([], Some (Error ''rejected'')),
       revoke_rejected\<lparr>trace := [ListUsersCall ''pki'' ''cvpn-1'', RevokeCall ''pki'' 1]\<rparr>)"
proof -
  let ?w1 = "record_call (ListUsersCall ''pki'' ''cvpn-1'') revoke_rejected"
  let ?w2 = "revoke_rejected\<lparr>trace := [ListUsersCall ''pki'' ''cvpn-1'', RevokeCall ''pki'' 1]\<rparr>"
  have lu: "list_users revoke_rejected ''pki'' ''cvpn-1''
      = ([(''bob'', [bob_only])] @ (''alice'', [alice_old, alice_new])
           # [(''carol'', [\<lparr>cert_id = 4, issued = 3\<rparr>, \<lparr>cert_id = 5, issued = 4\<rparr>])], None)"
    by (simp add: revoke_rejected_def)
  have pre: "revoke_users ''pki'' [(''bob'', [bob_only])] ?w1 = (None, ?w1)"
    by (simp add: revokeUserCertificates_def to_revoke_def)
  have bad: "revokeUserCertificates ''pki'' [alice_old, alice_new] False ?w1
      = (Some (Error ''rejected''), ?w2)"
    by (simp add: revokeUserCertificates_def to_revoke_def pki_revoke_def alice_old_def alice_new_def
        revoke_rejected_def example_world_def record_call_def)
  from UpdateCRL_revocation_fails [OF lu pre bad] show ?thesis by simp
qed

text \<open>
  C1: a failure of any of the steps 1 to 4 is to abort \<open>UpdateCRL\<close> with that error,
  with no import attempted afterwards. The code does so for the enumeration, the
  revocations and the export (\<open>UpdateCRL_list_error\<close>, \<open>UpdateCRL_revoke_error\<close>,
  \<open>UpdateCRL_export_error\<close>), but not for step 3: the error of \<open>GetCRL\<close> (line 67) is
  never read. Here the PKI service refuses the request for the list while the gateway
  has a list installed: \<open>UpdateCRL\<close> goes on with the nil slice, imports the empty
  string into the gateway and returns no error.
\<close>

theorem UpdateCRL_fetch_error_ignored:
  "snd (fst (GetCRL \<lparr>GetCRLRequest.VaultPKIPath = ''pki''\<rparr> fetch_fails)) = Some (Error ''permission denied'')
   \<and> fst (UpdateCRL \<lparr>UpdateCRLRequest.VaultPKIPath = ''pki'', UpdateCRLRequest.ClientVPNEndpointID = ''cvpn-1''\<rparr>
            fetch_fails) = Return ([], None)
   \<and> service_calls (snd (UpdateCRL \<lparr>UpdateCRLRequest.VaultPKIPath = ''pki'', UpdateCRLRequest.ClientVPNEndpointID = ''cvpn-1''\<rparr>
            fetch_fails))
      = [ListUsersCall ''pki'' ''cvpn-1'', RevokeCall ''pki'' 1, RawRequestCall ''GET'' ''/v1/pki/crl/pem'',
         ExportCall ''cvpn-1'', ImportCall [] ''cvpn-1'']
   \<and> installed (snd (UpdateCRL \<lparr>UpdateCRLRequest.VaultPKIPath = ''pki'', UpdateCRLRequest.ClientVPNEndpointID = ''cvpn-1''\<rparr>
            fetch_fails)) ''cvpn-1'' = Some []"
  by (simp add: run_defs fetch_fails_def)

section \<open>The comparison and the import, in a run\<close>

text \<open>
  C2: in a run that reaches the comparison (enumeration, revocations and export have
  succeeded), if the installed list equals the bytes that \<open>GetCRL\<close> returned, the run
  makes no import call, leaves the gateway as it is and returns these bytes; otherwise
  (another list, or none installed) it makes exactly one import call, carrying these
  bytes unchanged, and when the import succeeds it returns them and the gateway has
  them installed. When the request for the list has succeeded, these bytes are the
  bytes read from the response body.
\<close>

theorem UpdateCRL_diff:
  assumes lu: "list_users w p ep = (us, None)"
    and rv: "revoke_users p us (record_call (ListUsersCall p ep) w) = (None, w2)"
    and ex: "export_err w ep = None"
  shows "(installed w ep = Some (fetched_crl p w) \<longrightarrow>
            fst (UpdateCRL \<lparr>UpdateCRLRequest.VaultPKIPath = p, UpdateCRLRequest.ClientVPNEndpointID = ep\<rparr> w)
              = Return (fetched_crl p w, None)
          \<and> service_calls (snd (UpdateCRL \<lparr>UpdateCRLRequest.VaultPKIPath = p, UpdateCRLRequest.ClientVPNEndpointID = ep\<rparr> w))
              = service_calls w2 @ [RawRequestCall ''GET'' (''/v1/'' @ p @ ''/crl/pem''), ExportCall ep]
          \<and> installed (snd (UpdateCRL \<lparr>UpdateCRLRequest.VaultPKIPath = p, UpdateCRLRequest.ClientVPNEndpointID = ep\<rparr> w))
              = installed w)
       \<and> (installed w ep \<noteq> Some (fetched_crl p w) \<longrightarrow>
            service_calls (snd (UpdateCRL \<lparr>UpdateCRLRequest.VaultPKIPath = p, UpdateCRLRequest.ClientVPNEndpointID = ep\<rparr> w))
              = service_calls w2 @ [RawRequestCall ''GET'' (''/v1/'' @ p @ ''/crl/pem''), ExportCall ep,
                                    ImportCall (fetched_crl p w) ep]
          \<and> (import_err w (fetched_crl p w) ep = None \<longrightarrow>
                fst (UpdateCRL \<lparr>UpdateCRLRequest.VaultPKIPath = p, UpdateCRLRequest.ClientVPNEndpointID = ep\<rparr> w)
                  = Return (fetched_crl p w, None)
              \<and> installed (snd (UpdateCRL \<lparr>UpdateCRLRequest.VaultPKIPath = p, UpdateCRLRequest.ClientVPNEndpointID = ep\<rparr> w))
                  = (installed w)(ep := Some (fetched_crl p w))))
       \<and> (raw_request w ''GET'' (''/v1/'' @ p @ ''/crl/pem'') = Inr rsp \<longrightarrow>
            fetched_crl p w = read_data (Body rsp))"
  using UpdateCRL_install_cases [OF lu rv ex] fetched_crl_body [of w p rsp] by blast

theorem UpdateCRL_diff_witness:
  "fst (UpdateCRL \<lparr>UpdateCRLRequest.VaultPKIPath = ''pki'', UpdateCRLRequest.ClientVPNEndpointID = ''cvpn-1''\<rparr>
          example_world) = Return (''CRL'', None)
   \<and> service_calls (snd (UpdateCRL \<lparr>UpdateCRLRequest.VaultPKIPath = ''pki'', UpdateCRLRequest.ClientVPNEndpointID = ''cvpn-1''\<rparr>
          example_world))
      = [ListUsersCall ''pki'' ''cvpn-1'', RevokeCall ''pki'' 1, RawRequestCall ''GET'' ''/v1/pki/crl/pem'',
         ExportCall ''cvpn-1'', ImportCall ''CRL'' ''cvpn-1'']
   \<and> installed (snd (UpdateCRL \<lparr>UpdateCRLRequest.VaultPKIPath = ''pki'', UpdateCRLRequest.ClientVPNEndpointID = ''cvpn-1''\<rparr>
          example_world)) ''cvpn-1'' = Some ''CRL''
   \<and> fst (UpdateCRL \<lparr>UpdateCRLRequest.VaultPKIPath = ''pki'', UpdateCRLRequest.ClientVPNEndpointID = ''cvpn-1''\<rparr>
          up_to_date) = Return (''CRL'', None)
   \<and> service_calls (snd (UpdateCRL \<lparr>UpdateCRLRequest.VaultPKIPath = ''pki'', UpdateCRLRequest.ClientVPNEndpointID = ''cvpn-1''\<rparr>
          up_to_date))
      = [ListUsersCall ''pki'' ''cvpn-1'', RevokeCall ''pki'' 1, RawRequestCall ''GET'' ''/v1/pki/crl/pem'',
         ExportCall ''cvpn-1'']"
proof -
  let ?us = "[(''bob'', [bob_only]), (''alice'', [alice_old, alice_new])]"
  let ?t = "[ListUsersCall ''pki'' ''cvpn-1'', RevokeCall ''pki'' 1]"
  have a: "list_users example_world ''pki'' ''cvpn-1'' = (?us, None)"
    "revoke_users ''pki'' ?us (record_call (ListUsersCall ''pki'' ''cvpn-1'') example_world)
       = (None, example_converged)"
    "export_err example_world ''cvpn-1'' = None"
    "installed example_world ''cvpn-1'' = None"
    "import_err example_world ''CRL'' ''cvpn-1'' = None"
    "fetched_crl ''pki'' example_world = ''CRL''"
    "service_calls example_converged = ?t"
    by (simp_all add: run_defs example_converged_def)
  have b: "list_users up_to_date ''pki'' ''cvpn-1'' = (?us, None)"
    "revoke_users ''pki'' ?us (record_call (ListUsersCall ''pki'' ''cvpn-1'') up_to_date)
       = (None, up_to_date\<lparr>revoked := {1}, trace := ?t\<rparr>)"
    "export_err up_to_date ''cvpn-1'' = None"
    "installed up_to_date ''cvpn-1'' = Some ''CRL''"
    "fetched_crl ''pki'' up_to_date = ''CRL''"
    "service_calls (up_to_date\<lparr>revoked := {1}, trace := ?t\<rparr>) = ?t"
    by (simp_all add: run_defs up_to_date_def)
  from UpdateCRL_diff [of example_world "''pki''" "''cvpn-1''" ?us example_converged]
       UpdateCRL_diff [of up_to_date "''pki''" "''cvpn-1''" ?us "up_to_date\<lparr>revoked := {1}, trace := ?t\<rparr>"]
       a b
  show ?thesis by simp
qed

text \<open>
  C4: \<open>UpdateCRL\<close> never panics, and it tells a gateway without an installed list from
  one whose installed list is the empty string: in the first case it imports what it
  fetched, whatever that is; in the second it compares, importing only when what it
  fetched is not empty.
\<close>

theorem UpdateCRL_absent_or_empty:
  "fst (UpdateCRL \<lparr>UpdateCRLRequest.VaultPKIPath = p, UpdateCRLRequest.ClientVPNEndpointID = ep\<rparr> w) \<noteq> Panic
   \<and> (list_users w p ep = (us, None) \<longrightarrow>
      revoke_users p us (record_call (ListUsersCall p ep) w) = (None, w2) \<longrightarrow>
      export_err w ep = None \<longrightarrow>
        (installed w ep = None \<longrightarrow>
           service_calls (snd (UpdateCRL \<lparr>UpdateCRLRequest.VaultPKIPath = p, UpdateCRLRequest.ClientVPNEndpointID = ep\<rparr> w))
             = service_calls w2 @ [RawRequestCall ''GET'' (''/v1/'' @ p @ ''/crl/pem''), ExportCall ep,
                                   ImportCall (fetched_crl p w) ep])
      \<and> (installed w ep = Some [] \<longrightarrow>
           service_calls (snd (UpdateCRL \<lparr>UpdateCRLRequest.VaultPKIPath = p, UpdateCRLRequest.ClientVPNEndpointID = ep\<rparr> w))
             = service_calls w2 @ [RawRequestCall ''GET'' (''/v1/'' @ p @ ''/crl/pem''), ExportCall ep]
                 @ (if fetched_crl p w = [] then [] else [ImportCall (fetched_crl p w) ep])))"
proof -
  have "installed w ep = None \<Longrightarrow> installed w ep \<noteq> Some (fetched_crl p w)" by simp
  moreover have "installed w ep = Some [] \<Longrightarrow>
    (installed w ep = Some (fetched_crl p w)) = (fetched_crl p w = [])" by auto
  ultimately show ?thesis
    using UpdateCRL_install_cases [of w p ep us w2] UpdateCRL_no_panic by auto
qed

theorem UpdateCRL_absent_or_empty_witness:
  "service_calls (snd (UpdateCRL \<lparr>UpdateCRLRequest.VaultPKIPath = ''pki'', UpdateCRLRequest.ClientVPNEndpointID = ''cvpn-1''\<rparr>
          empty_never_installed))
      = [ListUsersCall ''pki'' ''cvpn-1'', RevokeCall ''pki'' 1, RawRequestCall ''GET'' ''/v1/pki/crl/pem'',
         ExportCall ''cvpn-1'', ImportCall [] ''cvpn-1'']
   \<and> service_calls (snd (UpdateCRL \<lparr>UpdateCRLRequest.VaultPKIPath = ''pki'', UpdateCRLRequest.ClientVPNEndpointID = ''cvpn-1''\<rparr>
          empty_installed))
      = [ListUsersCall ''pki'' ''cvpn-1'', RevokeCall ''pki'' 1, RawRequestCall ''GET'' ''/v1/pki/crl/pem'',
         ExportCall ''cvpn-1'']"
proof -
  let ?us = "[(''bob'', [bob_only]), (''alice'', [alice_old, alice_new])]"
  let ?t = "[ListUsersCall ''pki'' ''cvpn-1'', RevokeCall ''pki'' 1]"
  have a: "list_users empty_never_installed ''pki'' ''cvpn-1'' = (?us, None)"
    "revoke_users ''pki'' ?us (record_call (ListUsersCall ''pki'' ''cvpn-1'') empty_never_installed)
       = (None, empty_never_installed\<lparr>revoked := {1}, trace := ?t\<rparr>)"
    "export_err empty_never_installed ''cvpn-1'' = None"
    "installed empty_never_installed ''cvpn-1'' = None"
    "fetched_crl ''pki'' empty_never_installed = []"
    "service_calls (empty_never_installed\<lparr>revoked := {1}, trace := ?t\<rparr>) = ?t"
    by (simp_all add: run_defs empty_never_installed_def)
  have b: "list_users empty_installed ''pki'' ''cvpn-1'' = (?us, None)"
    "revoke_users ''pki'' ?us (record_call (ListUsersCall ''pki'' ''cvpn-1'') empty_installed)
       = (None, empty_installed\<lparr>revoked := {1}, trace := ?t\<rparr>)"
    "export_err empty_installed ''cvpn-1'' = None"
    "installed empty_installed ''cvpn-1'' = Some []"
    "fetched_crl ''pki'' empty_installed = []"
    "service_calls (empty_installed\<lparr>revoked := {1}, trace := ?t\<rparr>) = ?t"
    by (simp_all add: run_defs empty_installed_def)
  from UpdateCRL_absent_or_empty
         [of "''pki''" "''cvpn-1''" empty_never_installed ?us "empty_never_installed\<lparr>revoked := {1}, trace := ?t\<rparr>"]
       UpdateCRL_absent_or_empty
         [of "''pki''" "''cvpn-1''" empty_installed ?us "empty_installed\<lparr>revoked := {1}, trace := ?t\<rparr>"]
       a b
  show ?thesis by simp
qed

text \<open>
  C10: every run of \<open>UpdateCRL\<close> makes at most one import call. Its gateway calls are
  none, the export alone, or the export followed by one import of the bytes fetched;
  in a run that reaches the comparison the import is made exactly when the installed
  list is not equal to these bytes.
\<close>

theorem UpdateCRL_one_import:
  "length (import_calls (snd (UpdateCRL \<lparr>UpdateCRLRequest.VaultPKIPath = p, UpdateCRLRequest.ClientVPNEndpointID = ep\<rparr> w)))
     \<le> length (import_calls w) + 1
   \<and> (gateway_calls (snd (UpdateCRL \<lparr>UpdateCRLRequest.VaultPKIPath = p, UpdateCRLRequest.ClientVPNEndpointID = ep\<rparr> w))
         = gateway_calls w
      \<or> gateway_calls (snd (UpdateCRL \<lparr>UpdateCRLRequest.VaultPKIPath = p, UpdateCRLRequest.ClientVPNEndpointID = ep\<rparr> w))
         = gateway_calls w @ [ExportCall ep]
      \<or> gateway_calls (snd (UpdateCRL \<lparr>UpdateCRLRequest.VaultPKIPath = p, UpdateCRLRequest.ClientVPNEndpointID = ep\<rparr> w))
         = gateway_calls w @ [ExportCall ep, ImportCall (fetched_crl p w) ep])
   \<and> (list_users w p ep = (us, None) \<longrightarrow>
      revoke_users p us (record_call (ListUsersCall p ep) w) = (None, w2) \<longrightarrow>
      export_err w ep = None \<longrightarrow>
        import_calls (snd (UpdateCRL \<lparr>UpdateCRLRequest.VaultPKIPath = p, UpdateCRLRequest.ClientVPNEndpointID = ep\<rparr> w))
          = import_calls w @ (if installed w ep = Some (fetched_crl p w) then []
                              else [ImportCall (fetched_crl p w) ep]))"
proof -
  let ?w' = "snd (UpdateCRL \<lparr>UpdateCRLRequest.VaultPKIPath = p, UpdateCRLRequest.ClientVPNEndpointID = ep\<rparr> w)"
  have "import_calls ?w' = import_calls w @ (if installed w ep = Some (fetched_crl p w) then []
                              else [ImportCall (fetched_crl p w) ep])"
    if lu: "list_users w p ep = (us, None)"
      and rv: "revoke_users p us (record_call (ListUsersCall p ep) w) = (None, w2)"
      and ex: "export_err w ep = None"
  proof -
    from revoke_users_gateway_calls [OF rv] have g: "gateway_calls w2 = gateway_calls w"
      by (simp add: gateway_calls_def)
    note c = UpdateCRL_install_cases [OF lu rv ex]
    show ?thesis
    proof (cases "installed w ep = Some (fetched_crl p w)")
      case True
      with c have "service_calls ?w'
          = service_calls w2 @ [RawRequestCall ''GET'' (''/v1/'' @ p @ ''/crl/pem''), ExportCall ep]"
        by blast
      from gateway_calls_extend [OF this] g True show ?thesis
        by (simp add: import_calls_gateway)
    next
      case False
      with c have "service_calls ?w'
          = service_calls w2 @ [RawRequestCall ''GET'' (''/v1/'' @ p @ ''/crl/pem''), ExportCall ep,
                                ImportCall (fetched_crl p w) ep]"
        by blast
      from gateway_calls_extend [OF this] g False show ?thesis
        by (simp add: import_calls_gateway)
    qed
  qed
  with UpdateCRL_import_bound [of p ep w] UpdateCRL_gateway_cases [of p ep w]
  show ?thesis by blast
qed

theorem UpdateCRL_one_import_witness:
  "import_calls (snd (UpdateCRL \<lparr>UpdateCRLRequest.VaultPKIPath = ''pki'', UpdateCRLRequest.ClientVPNEndpointID = ''cvpn-1''\<rparr>
          example_world)) = [ImportCall ''CRL'' ''cvpn-1'']
   \<and> import_calls (snd (UpdateCRL \<lparr>UpdateCRLRequest.VaultPKIPath = ''pki'', UpdateCRLRequest.ClientVPNEndpointID = ''cvpn-1''\<rparr>
          up_to_date)) = []"
proof -
  let ?us = "[(''bob'', [bob_only]), (''alice'', [alice_old, alice_new])]"
  let ?t = "[ListUsersCall ''pki'' ''cvpn-1'', RevokeCall ''pki'' 1]"
  have a: "list_users example_world ''pki'' ''cvpn-1'' = (?us, None)"
    "revoke_users ''pki'' ?us (record_call (ListUsersCall ''pki'' ''cvpn-1'') example_world)
       = (None, example_converged)"
    "export_err example_world ''cvpn-1'' = None"
    "installed example_world ''cvpn-1'' = None"
    "fetched_crl ''pki'' example_world = ''CRL''"
    "import_calls example_world = []"
    by (simp_all add: run_defs example_converged_def)
  have b: "list_users up_to_date ''pki'' ''cvpn-1'' = (?us, None)"
    "revoke_users ''pki'' ?us (record_call (ListUsersCall ''pki'' ''cvpn-1'') up_to_date)
       = (None, up_to_date\<lparr>revoked := {1}, trace := ?t\<rparr>)"
    "export_err up_to_date ''cvpn-1'' = None"
    "installed up_to_date ''cvpn-1'' = Some ''CRL''"
    "fetched_crl ''pki'' up_to_date = ''CRL''"
    "import_calls up_to_date = []"
    by (simp_all add: run_defs up_to_date_def)
  from UpdateCRL_one_import [of "''pki''" "''cvpn-1''" example_world ?us example_converged]
       UpdateCRL_one_import [of "''pki''" "''cvpn-1''" up_to_date ?us "up_to_date\<lparr>revoked := {1}, trace := ?t\<rparr>"]
       a b
  show ?thesis by simp
qed

section \<open>Convergence\<close>




section \<open>Two runs in a row\<close>

text \<open>
  C6, after a first run without error: when a run of \<open>UpdateCRL\<close> has returned
  without error, a second run for which the PKI service answers its requests as
  before and the gateway is in the state the first
  run left makes no import call and leaves the gateway as it is; the first run made at
  most one import call, so the two runs make at most one.
\<close>

theorem UpdateCRL_second_run:
  assumes run: "UpdateCRL \<lparr>UpdateCRLRequest.VaultPKIPath = p, UpdateCRLRequest.ClientVPNEndpointID = ep\<rparr> w
                  = (Return (crl, None), w1)"
    and rq: "raw_request w' = raw_request w1"
    and ins: "installed w' = installed w1"
  shows "import_calls (snd (UpdateCRL \<lparr>UpdateCRLRequest.VaultPKIPath = p, UpdateCRLRequest.ClientVPNEndpointID = ep\<rparr> w'))
           = import_calls w'
         \<and> installed (snd (UpdateCRL \<lparr>UpdateCRLRequest.VaultPKIPath = p, UpdateCRLRequest.ClientVPNEndpointID = ep\<rparr> w'))
           = installed w'
         \<and> length (import_calls w1) \<le> length (import_calls w) + 1"
proof -
  obtain us e where lu: "list_users w p ep = (us, e)" by (cases "list_users w p ep")
  from UpdateCRL_success [OF run lu]
  have c: "crl = fetched_crl p w" and i: "installed w1 ep = Some crl" by simp_all
  from UpdateCRL_world [of p ep w] run have "raw_request w1 = raw_request w" by simp
  with rq have "fetched_crl p w' = fetched_crl p w"
    using GetCRL_result [of w' w "\<lparr>GetCRLRequest.VaultPKIPath = p\<rparr>"] by (simp add: fetched_crl_def)
  with c i ins have "installed w' ep = Some (fetched_crl p w')" by simp
  moreover from UpdateCRL_import_bound [of p ep w] run
  have "length (import_calls w1) \<le> length (import_calls w) + 1" by simp
  ultimately show ?thesis
    using UpdateCRL_up_to_date [of w' ep p] by simp
qed

theorem UpdateCRL_second_run_witness:
  "fst (UpdateCRL \<lparr>UpdateCRLRequest.VaultPKIPath = ''pki'', UpdateCRLRequest.ClientVPNEndpointID = ''cvpn-1''\<rparr>
          example_world) = Return (''CRL'', None)
   \<and> import_calls (snd (UpdateCRL \<lparr>UpdateCRLRequest.VaultPKIPath = ''pki'', UpdateCRLRequest.ClientVPNEndpointID = ''cvpn-1''\<rparr>
        (snd (UpdateCRL \<lparr>UpdateCRLRequest.VaultPKIPath = ''pki'', UpdateCRLRequest.ClientVPNEndpointID = ''cvpn-1''\<rparr>
           example_world))))
     = [ImportCall ''CRL'' ''cvpn-1'']"
proof -
  let ?r = "\<lparr>UpdateCRLRequest.VaultPKIPath = ''pki'', UpdateCRLRequest.ClientVPNEndpointID = ''cvpn-1''\<rparr>"
  have f: "fst (UpdateCRL ?r example_world) = Return (''CRL'', None)"
    by (simp add: run_defs)
  then have run: "UpdateCRL ?r example_world = (Return (''CRL'', None), snd (UpdateCRL ?r example_world))"
    by (simp add: prod_eq_iff)
  have i: "import_calls (snd (UpdateCRL ?r example_world)) = [ImportCall ''CRL'' ''cvpn-1'']"
    by (simp add: run_defs)
  from UpdateCRL_second_run [OF run refl refl] f i show ?thesis by simp
qed

text \<open>
  C6, for every pair of runs, does not hold: when the gateway rejects the import, the
  first run fails and leaves the gateway without the list, and the second run finds
  no list installed and calls the import again.
\<close>

theorem UpdateCRL_failed_import_repeated:
  "import_calls (snd (UpdateCRL \<lparr>UpdateCRLRequest.VaultPKIPath = ''pki'', UpdateCRLRequest.ClientVPNEndpointID = ''cvpn-1''\<rparr>
      (snd (UpdateCRL \<lparr>UpdateCRLRequest.VaultPKIPath = ''pki'', UpdateCRLRequest.ClientVPNEndpointID = ''cvpn-1''\<rparr>
         import_down))))
   = [ImportCall ''CRL'' ''cvpn-1'', ImportCall ''CRL'' ''cvpn-1'']"
  by (simp add: run_defs import_down_def)

section \<open>RotateCRL\<close>

text \<open>
  C9: \<open>RotateCRL\<close> first sends the rotate request. When the request fails, it returns
  that error and has made no other call. When it succeeds, it runs \<open>UpdateCRL\<close> in the
  state the request left and returns the error of \<open>UpdateCRL\<close>, or none; it ends in the
  state \<open>UpdateCRL\<close> left, so no call follows a failed propagation and the rotate
  request stays the first call of the run.
\<close>

theorem RotateCRL_then_UpdateCRL:
  "(raw_request w ''GET'' (''/v1/'' @ p @ ''/crl/rotate'') = Inl err \<longrightarrow>
      RotateCRL \<lparr>RotateCRLRequest.VaultPKIPath = p, RotateCRLRequest.ClientVPNEndpointID = ep\<rparr> w
        = (Return (Some err), record_call (RawRequestCall ''GET'' (''/v1/'' @ p @ ''/crl/rotate'')) w))
   \<and> (raw_request w ''GET'' (''/v1/'' @ p @ ''/crl/rotate'') = Inr rsp \<longrightarrow>
      (\<exists>crl e w2 cs.
          UpdateCRL \<lparr>UpdateCRLRequest.VaultPKIPath = p, UpdateCRLRequest.ClientVPNEndpointID = ep\<rparr>
            (record_call (RawRequestCall ''GET'' (''/v1/'' @ p @ ''/crl/rotate'')) w) = (Return (crl, e), w2)
        \<and> RotateCRL \<lparr>RotateCRLRequest.VaultPKIPath = p, RotateCRLRequest.ClientVPNEndpointID = ep\<rparr> w
            = (Return e, w2)
        \<and> trace w2 = trace w @ RawRequestCall ''GET'' (''/v1/'' @ p @ ''/crl/rotate'') # cs))"
proof -
  let ?w1 = "record_call (RawRequestCall ''GET'' (''/v1/'' @ p @ ''/crl/rotate'')) w"
  let ?u = "UpdateCRL \<lparr>UpdateCRLRequest.VaultPKIPath = p, UpdateCRLRequest.ClientVPNEndpointID = ep\<rparr> ?w1"
  obtain crl e where r: "fst ?u = Return (crl, e)"
    using UpdateCRL_no_panic [of "\<lparr>UpdateCRLRequest.VaultPKIPath = p, UpdateCRLRequest.ClientVPNEndpointID = ep\<rparr>" ?w1]
    by (cases "fst ?u") auto
  then have u: "?u = (Return (crl, e), snd ?u)" by (metis prod.collapse)
  from UpdateCRL_world [of p ep ?w1] obtain cs where
    t: "trace (snd ?u) = trace w @ RawRequestCall ''GET'' (''/v1/'' @ p @ ''/crl/rotate'') # cs"
    by auto
  have "raw_request w ''GET'' (''/v1/'' @ p @ ''/crl/rotate'') = Inr rsp \<Longrightarrow>
      RotateCRL \<lparr>RotateCRLRequest.VaultPKIPath = p, RotateCRLRequest.ClientVPNEndpointID = ep\<rparr> w
        = (Return e, snd ?u)"
    using RotateCRL_rotate_ok [OF _ u] by simp
  with u t show ?thesis
    using RotateCRL_rotate_error [of w p err ep] by blast
qed

theorem RotateCRL_then_UpdateCRL_witness:
  "RotateCRL \<lparr>RotateCRLRequest.VaultPKIPath = ''pki'', RotateCRLRequest.ClientVPNEndpointID = ''cvpn-1''\<rparr> fetch_fails
     = (Return (Some (Error ''permission denied'')),
        record_call (RawRequestCall ''GET'' ''/v1/pki/crl/rotate'') fetch_fails)
   \<and> fst (RotateCRL \<lparr>RotateCRLRequest.VaultPKIPath = ''pki'', RotateCRLRequest.ClientVPNEndpointID = ''cvpn-1''\<rparr> import_down)
     = Return (Some (Error ''throttled''))
   \<and> service_calls (snd (RotateCRL \<lparr>RotateCRLRequest.VaultPKIPath = ''pki'', RotateCRLRequest.ClientVPNEndpointID = ''cvpn-1''\<rparr>
        import_down))
     = [RawRequestCall ''GET'' ''/v1/pki/crl/rotate'', ListUsersCall ''pki'' ''cvpn-1'', RevokeCall ''pki'' 1,
        RawRequestCall ''GET'' ''/v1/pki/crl/pem'', ExportCall ''cvpn-1'', ImportCall ''CRL'' ''cvpn-1'']"
proof -
  let ?r = "\<lparr>UpdateCRLRequest.VaultPKIPath = ''pki'', UpdateCRLRequest.ClientVPNEndpointID = ''cvpn-1''\<rparr>"
  let ?w1 = "record_call (RawRequestCall ''GET'' ''/v1/pki/crl/rotate'') import_down"
  have a: "raw_request fetch_fails ''GET'' ''/v1/pki/crl/rotate'' = Inl (Error ''permission denied'')"
    by (simp add: fetch_fails_def example_world_def)
  have b: "raw_request import_down ''GET'' ''/v1/pki/crl/rotate''
      = Inr \<lparr>Body = \<lparr>read_data = [], read_err = None\<rparr>\<rparr>"
    by (simp add: import_down_def example_world_def)
  have u: "fst (UpdateCRL ?r ?w1) = Return ([], Some (Error ''throttled''))"
    "service_calls (snd (UpdateCRL ?r ?w1))
      = [RawRequestCall ''GET'' ''/v1/pki/crl/rotate'', ListUsersCall ''pki'' ''cvpn-1'', RevokeCall ''pki'' 1,
         RawRequestCall ''GET'' ''/v1/pki/crl/pem'', ExportCall ''cvpn-1'', ImportCall ''CRL'' ''cvpn-1'']"
    by (simp_all add: run_defs import_down_def)
  from RotateCRL_then_UpdateCRL
         [of fetch_fails "''pki''" "Error ''permission denied''" "''cvpn-1''"] a
  have 1: "RotateCRL \<lparr>RotateCRLRequest.VaultPKIPath = ''pki'', RotateCRLRequest.ClientVPNEndpointID = ''cvpn-1''\<rparr> fetch_fails
     = (Return (Some (Error ''permission denied'')),
        record_call (RawRequestCall ''GET'' ''/v1/pki/crl/rotate'') fetch_fails)"
    by simp
  from RotateCRL_then_UpdateCRL
         [of import_down "''pki''" _ "''cvpn-1''" "\<lparr>Body = \<lparr>read_data = [], read_err = None\<rparr>\<rparr>"] b
  obtain crl e w2 where
    "UpdateCRL ?r ?w1 = (Return (crl, e), w2)"
    "RotateCRL \<lparr>RotateCRLRequest.VaultPKIPath = ''pki'', RotateCRLRequest.ClientVPNEndpointID = ''cvpn-1''\<rparr> import_down
       = (Return e, w2)"
    by auto
  with u have 2: "fst (RotateCRL \<lparr>RotateCRLRequest.VaultPKIPath = ''pki'', RotateCRLRequest.ClientVPNEndpointID = ''cvpn-1''\<rparr> import_down)
     = Return (Some (Error ''throttled''))"
    "service_calls (snd (RotateCRL \<lparr>RotateCRLRequest.VaultPKIPath = ''pki'', RotateCRLRequest.ClientVPNEndpointID = ''cvpn-1''\<rparr>
        import_down))
     = [RawRequestCall ''GET'' ''/v1/pki/crl/rotate'', ListUsersCall ''pki'' ''cvpn-1'', RevokeCall ''pki'' 1,
        RawRequestCall ''GET'' ''/v1/pki/crl/pem'', ExportCall ''cvpn-1'', ImportCall ''CRL'' ''cvpn-1'']"
    by simp_all
  from 1 2 show ?thesis by simp
qed

end
